theory Spec2Isabelle
  imports Complex_Main "HOL-Library.AList"
begin

section \<open>Python values used by the program\<close>

text \<open>
  Strings are byte strings (the UTF-8 encoding of a Python \<open>str\<close>); all keys and all
  table entries of the program are ASCII. A dictionary is an association list in
  insertion order, read through \<open>map_of\<close>. A cell of a record that \<open>csv.DictReader\<close>
  yields is a string, or \<open>None\<close> where the row is shorter than the header.
\<close>

datatype cell = Str string | NoneCell

type_synonym pydict = "(string \<times> cell) list"

datatype error = KeyError string | AttributeError | TypeError | ZeroDivisionError | OverflowError

text \<open>\<open>d.get(k, default)\<close>\<close>

definition dict_get :: "(string \<times> 'v) list \<Rightarrow> string \<Rightarrow> 'v \<Rightarrow> 'v" where
  "dict_get d k dflt = (case map_of d k of None \<Rightarrow> dflt | Some v \<Rightarrow> v)"

text \<open>\<open>d[k]\<close>, which raises \<open>KeyError\<close> on a missing key\<close>

definition subscript :: "(string \<times> 'v) list \<Rightarrow> string \<Rightarrow> error + 'v" where
  "subscript d k = (case map_of d k of None \<Rightarrow> Inl (KeyError k) | Some v \<Rightarrow> Inr v)"

text \<open>Sequencing of two computations, the first of which may raise.\<close>

definition and_then :: "error + 'a \<Rightarrow> ('a \<Rightarrow> error + 'b) \<Rightarrow> error + 'b" where
  "and_then m f = (case m of Inl e \<Rightarrow> Inl e | Inr x \<Rightarrow> f x)"

text \<open>\<open>str.lower()\<close> and \<open>str.upper()\<close> on ASCII letters; other bytes are kept.\<close>

definition lower_char :: "char \<Rightarrow> char" where
  "lower_char c = (let n = of_char c :: nat in if 65 \<le> n \<and> n \<le> 90 then char_of (n + 32) else c)"


definition lower :: "string \<Rightarrow> string" where
  "lower s = map lower_char s"

text \<open>\<open>v.lower()\<close> on a cell: \<open>None\<close> has no such method.\<close>

fun cell_lower :: "cell \<Rightarrow> error + string" where
  "cell_lower (Str s) = Inr (lower s)"
| "cell_lower NoneCell = Inl AttributeError"

text \<open>\<open>str(v)\<close> on a cell, as an f-string formats it.\<close>

fun cell_str :: "cell \<Rightarrow> string" where
  "cell_str (Str s) = s"
| "cell_str NoneCell = ''None''"

text \<open>\<open>b in s\<close> on strings: \<open>b\<close> occurs in \<open>s\<close> as a contiguous substring.\<close>

fun startswith :: "string \<Rightarrow> string \<Rightarrow> bool" where
  "startswith s [] = True"
| "startswith [] (b # bs) = False"
| "startswith (c # s) (b # bs) = (c = b \<and> startswith s bs)"

fun str_in :: "string \<Rightarrow> string \<Rightarrow> bool" where
  "str_in b [] = (b = [])"
| "str_in b (c # s) = (startswith (c # s) b \<or> str_in b s)"

text \<open>\<open>str(n)\<close> for an integer, as an f-string formats it.\<close>

fun digits :: "nat \<Rightarrow> string" where
  "digits n = (if n < 10 then [char_of (48 + n)] else digits (n div 10) @ [char_of (48 + n mod 10)])"

definition str_of_int :: "int \<Rightarrow> string" where
  "str_of_int i = (if i < 0 then CHR ''-'' # digits (nat (- i)) else digits (nat i))"

section \<open>IEEE 754 binary64 arithmetic\<close>

text \<open>
  A finite Python \<open>float\<close> is modelled by the rational number it denotes. Every float
  operation returns the exact result rounded to the nearest number with a 53-bit
  significand, ties to even; below \<open>2\<^sup>-\<^sup>1\<^sup>0\<^sup>2\<^sup>2\<close> the spacing is that of the subnormal
  numbers. A result that rounds to a magnitude of \<open>2\<^sup>1\<^sup>0\<^sup>2\<^sup>4\<close> or more overflows; no score
  computation comes near it, and the one division that can reach it checks for it.
\<close>

function bit_length :: "int \<Rightarrow> int" where
  "bit_length n = (if n \<le> 0 then 0 else 1 + bit_length (n div 2))"
  by pat_completeness auto
termination
  by (relation "measure nat") auto

definition pow2 :: "int \<Rightarrow> rat" where
  "pow2 e = (if 0 \<le> e then 2 ^ nat e else 1 / 2 ^ nat (- e))"

text \<open>The exponent \<open>e\<close> with \<open>2\<^sup>e \<le> |x| < 2\<^sup>e\<^sup>+\<^sup>1\<close>, for \<open>x \<noteq> 0\<close>.\<close>

definition float_exponent :: "rat \<Rightarrow> int" where
  "float_exponent x =
     (let a = \<bar>x\<bar> in
      if 1 \<le> a then bit_length \<lfloor>a\<rfloor> - 1
      else let k = bit_length \<lfloor>1 / a\<rfloor> - 1
           in if a * pow2 k = 1 then - k else - k - 1)"

definition round_half_even :: "rat \<Rightarrow> int" where
  "round_half_even q =
     (let n = \<lfloor>q\<rfloor>; r = q - of_int n
      in if r < 1 / 2 then n else if 1 / 2 < r then n + 1 else if even n then n else n + 1)"

definition float_round :: "rat \<Rightarrow> rat" where
  "float_round x =
     (if x = 0 then 0
      else let u = pow2 (max (float_exponent x - 52) (- 1074))
           in of_int (round_half_even (x / u)) * u)"

definition float_of_int :: "int \<Rightarrow> rat" where
  "float_of_int i = float_round (of_int i)"

definition float_mul :: "rat \<Rightarrow> rat \<Rightarrow> rat" where
  "float_mul x y = float_round (x * y)"

definition float_add :: "rat \<Rightarrow> rat \<Rightarrow> rat" where
  "float_add x y = float_round (x + y)"

definition float_sub :: "rat \<Rightarrow> rat \<Rightarrow> rat" where
  "float_sub x y = float_round (x - y)"

text \<open>\<open>int(x)\<close> on a float truncates toward zero.\<close>

definition int_of_float :: "rat \<Rightarrow> int" where
  "int_of_float x = (if 0 \<le> x then \<lfloor>x\<rfloor> else \<lceil>x\<rceil>)"

text \<open>
  The builtin \<open>sum\<close> over floats starts from the integer \<open>0\<close>, so the first item is
  added to \<open>0\<close>. Up to CPython 3.11 the remaining items are added from left to right.
  From CPython 3.12 on the loop also accumulates the rounding error of every addition
  in a compensation \<open>c\<close> and adds it at the end when it is not zero.
\<close>

datatype interpreter = CPython_3_11 | CPython_3_12

fun compensated :: "rat \<Rightarrow> rat \<Rightarrow> rat list \<Rightarrow> rat" where
  "compensated f c [] = (if c \<noteq> 0 then float_add f c else f)"
| "compensated f c (x # xs) =
     (let t = float_add f x;
          c = (if \<bar>x\<bar> \<le> \<bar>f\<bar> then float_add c (float_add (float_sub f t) x)
               else float_add c (float_add (float_sub x t) f))
      in compensated t c xs)"

fun py_sum :: "interpreter \<Rightarrow> rat list \<Rightarrow> rat" where
  "py_sum v [] = 0"
| "py_sum CPython_3_11 (x # xs) = foldl float_add (float_add (float_of_int 0) x) xs"
| "py_sum CPython_3_12 (x # xs) = compensated (float_add (float_of_int 0) x) 0 xs"

section \<open>tools/compatibility\_scorer.py\<close>

record CompatibilityScorer =
  weights :: "(string \<times> rat) list"

text \<open>\<open>CompatibilityScorer.__init__\<close>: the decimal literals denote the nearest floats.\<close>

definition CompatibilityScorer_init :: CompatibilityScorer where
  "CompatibilityScorer_init =
     \<lparr>weights = [(''lifestyle_match'', float_round (30 / 100)),
                 (''experience_match'', float_round (20 / 100)),
                 (''home_fit'', float_round (20 / 100)),
                 (''behavioral_fit'', float_round (20 / 100)),
                 (''special_needs'', float_round (10 / 100))]\<rparr>"

definition energy_map :: "(string \<times> int) list" where
  "energy_map = [(''low'', 1), (''medium'', 2), (''high'', 3)]"

definition lifestyle_map :: "(string \<times> int) list" where
  "lifestyle_map =
     [(''quiet'', 1), (''relaxed'', 1), (''moderate'', 2), (''active'', 3),
      (''outdoor-person'', 3), (''family-focused'', 2), (''busy'', 1)]"

definition score_lifestyle :: "pydict \<Rightarrow> pydict \<Rightarrow> error + int" where
  "score_lifestyle animal adopter =
     and_then (cell_lower (dict_get animal ''energy_level'' (Str ''medium''))) (\<lambda>animal_energy.
     and_then (cell_lower (dict_get adopter ''lifestyle'' (Str ''moderate''))) (\<lambda>adopter_lifestyle.
       let animal_level = dict_get energy_map animal_energy 2;
           adopter_level = dict_get lifestyle_map adopter_lifestyle 2;
           diff = \<bar>animal_level - adopter_level\<bar>
       in Inr (if diff = 0 then 100 else if diff = 1 then 70 else 40)))"

definition score_experience :: "pydict \<Rightarrow> pydict \<Rightarrow> error + int" where
  "score_experience animal adopter =
     and_then (cell_lower (dict_get animal ''special_needs'' (Str ''''))) (\<lambda>special_needs.
     and_then (cell_lower (dict_get adopter ''experience_level'' (Str ''beginner''))) (\<lambda>adopter_experience.
       let animal_needs_training = (special_needs = ''yes'')
       in Inr (if animal_needs_training \<and> adopter_experience = ''experienced'' then 100
               else if animal_needs_training \<and> adopter_experience = ''beginner'' then 40
               else if \<not> animal_needs_training \<and> adopter_experience = ''beginner'' then 90
               else 100)))"

definition large_breeds :: "string list" where
  "large_breeds = [''retriever'', ''shepherd'', ''labrador'', ''pit bull'']"

definition small_breeds :: "string list" where
  "small_breeds = [''cat'', ''tabby'', ''persian'', ''beagle'']"

definition estimate_size :: "cell \<Rightarrow> error + string" where
  "estimate_size breed =
     and_then (cell_lower breed) (\<lambda>breed_lower.
       Inr (if list_ex (\<lambda>b. str_in b breed_lower) large_breeds then ''large''
            else if list_ex (\<lambda>b. str_in b breed_lower) small_breeds then ''small''
            else ''medium''))"

definition score_home :: "pydict \<Rightarrow> pydict \<Rightarrow> error + int" where
  "score_home animal adopter =
     and_then (estimate_size (dict_get animal ''breed'' (Str ''''))) (\<lambda>animal_size.
     and_then (cell_lower (dict_get adopter ''home_type'' (Str ''apartment''))) (\<lambda>home_type.
       Inr (if home_type = ''house'' then (if animal_size = ''large'' then 100 else 90)
            else (if animal_size = ''large'' then 40 else 85))))"

definition score_behavior :: "pydict \<Rightarrow> pydict \<Rightarrow> error + int" where
  "score_behavior animal adopter =
     and_then (cell_lower (dict_get adopter ''has_kids'' (Str ''no''))) (\<lambda>kids.
     and_then (cell_lower (dict_get adopter ''has_other_pets'' (Str ''no''))) (\<lambda>other_pets.
     and_then (cell_lower (dict_get animal ''good_with_kids'' (Str ''no''))) (\<lambda>good_kids.
     and_then (cell_lower (dict_get animal ''good_with_dogs'' (Str ''no''))) (\<lambda>good_dogs.
       let has_kids = (kids = ''yes'');
           has_other_pets = (other_pets = ''yes'');
           animal_good_kids = (good_kids = ''yes'');
           animal_good_pets = (good_dogs = ''yes'');
           score = 100;
           score = (if has_kids \<and> \<not> animal_good_kids then score - 40 else score);
           score = (if has_other_pets \<and> \<not> animal_good_pets then score - 30 else score)
       in Inr (max score 10)))))"

definition score_special_needs :: "pydict \<Rightarrow> pydict \<Rightarrow> error + int" where
  "score_special_needs animal adopter =
     and_then (cell_lower (dict_get animal ''special_needs'' (Str ''no''))) (\<lambda>special_needs.
     and_then (cell_lower (dict_get adopter ''commitment_level'' (Str ''medium''))) (\<lambda>commitment.
       let has_special_needs = (special_needs = ''yes'')
       in Inr (if \<not> has_special_needs then 100
               else if commitment = ''high'' then 95
               else if commitment = ''medium'' then 60
               else 30)))"

text \<open>
  The separator between the two names is the byte sequence of the source file
  (\<open>C3 A2 E2 80 A0 E2 80 9D\<close>); a line ends with the newline byte.
\<close>

definition arrow :: string where
  "arrow = [CHR 0xC3, CHR 0xA2, CHR 0xE2, CHR 0x80, CHR 0xA0, CHR 0xE2, CHR 0x80, CHR 0x9D]"

definition newline :: string where
  "newline = [CHR 0x0A]"

definition score_line :: "string \<Rightarrow> (string \<times> int) list \<Rightarrow> string \<Rightarrow> error + string" where
  "score_line label scores key =
     and_then (subscript scores key) (\<lambda>v. Inr (label @ str_of_int v @ ''/100'' @ newline))"

fun concat_lines :: "(error + string) list \<Rightarrow> error + string" where
  "concat_lines [] = Inr []"
| "concat_lines (l # ls) = and_then l (\<lambda>x. and_then (concat_lines ls) (\<lambda>r. Inr (x @ r)))"

definition generate_reasoning :: "pydict \<Rightarrow> pydict \<Rightarrow> (string \<times> int) list \<Rightarrow> error + string" where
  "generate_reasoning animal adopter scores =
     (let animal_name = cell_str (dict_get animal ''name'' (Str ''Unknown''));
          adopter_name = cell_str (dict_get adopter ''name'' (Str ''Unknown''))
      in concat_lines
           [Inr (''Match Analysis: '' @ animal_name @ '' '' @ arrow @ '' '' @ adopter_name @ newline),
            score_line ''- Lifestyle Compatibility: '' scores ''lifestyle_match'',
            score_line ''- Experience Match: '' scores ''experience_match'',
            score_line ''- Home Fit: '' scores ''home_fit'',
            score_line ''- Behavioral Compatibility: '' scores ''behavioral_fit'',
            score_line ''- Special Needs Capability: '' scores ''special_needs''])"

text \<open>The generator \<open>scores[key] * self.weights[key] for key in scores.keys()\<close>.\<close>

fun weighted_terms :: "(string \<times> rat) list \<Rightarrow> (string \<times> int) list \<Rightarrow> string list \<Rightarrow> error + rat list" where
  "weighted_terms ws scores [] = Inr []"
| "weighted_terms ws scores (key # keys) =
     and_then (subscript scores key) (\<lambda>s.
     and_then (subscript ws key) (\<lambda>w.
     and_then (weighted_terms ws scores keys) (\<lambda>ts.
       Inr (float_mul (float_of_int s) w # ts))))"

text \<open>The dictionary \<open>scores\<close>: the five sub-scorers are called in this order.\<close>

definition sub_scores :: "pydict \<Rightarrow> pydict \<Rightarrow> error + (string \<times> int) list" where
  "sub_scores animal adopter =
     and_then (score_lifestyle animal adopter) (\<lambda>s1.
     and_then (score_experience animal adopter) (\<lambda>s2.
     and_then (score_home animal adopter) (\<lambda>s3.
     and_then (score_behavior animal adopter) (\<lambda>s4.
     and_then (score_special_needs animal adopter) (\<lambda>s5.
       Inr [(''lifestyle_match'', s1), (''experience_match'', s2), (''home_fit'', s3),
            (''behavioral_fit'', s4), (''special_needs'', s5)])))))"

text \<open>The first argument is the interpreter that runs the program.\<close>

definition calculate_compatibility ::
  "interpreter \<Rightarrow> CompatibilityScorer \<Rightarrow> pydict \<Rightarrow> pydict \<Rightarrow> error + (int \<times> string)" where
  "calculate_compatibility v self animal adopter =
     and_then (sub_scores animal adopter) (\<lambda>scores.
     and_then (weighted_terms (weights self) scores (map fst scores)) (\<lambda>terms.
       let total_score = py_sum v terms
       in and_then (generate_reasoning animal adopter scores) (\<lambda>reasoning.
            Inr (int_of_float total_score, reasoning))))"

section \<open>tools/data\_loader.py\<close>

record DataLoader =
  animals :: "pydict list"
  adopters :: "pydict list"

text \<open>The loop of \<open>get_adopter\<close>; \<open>adopter['adopter_id']\<close> raises on a row without that key.\<close>

fun find_adopter :: "pydict list \<Rightarrow> string \<Rightarrow> error + pydict option" where
  "find_adopter [] adopter_id = Inr None"
| "find_adopter (adopter # rest) adopter_id =
     and_then (subscript adopter ''adopter_id'') (\<lambda>v.
       if v = Str adopter_id then Inr (Some adopter) else find_adopter rest adopter_id)"

definition get_adopter :: "DataLoader \<Rightarrow> string \<Rightarrow> error + pydict option" where
  "get_adopter self adopter_id = find_adopter (adopters self) adopter_id"

definition get_all_animals :: "DataLoader \<Rightarrow> pydict list" where
  "get_all_animals self = animals self"

section \<open>agents/matching\_agent.py\<close>

record MatchingAgent =
  data_loader :: DataLoader
  scorer :: CompatibilityScorer

definition MatchingAgent_init :: "DataLoader \<Rightarrow> MatchingAgent" where
  "MatchingAgent_init dl = \<lparr>data_loader = dl, scorer = CompatibilityScorer_init\<rparr>"

text \<open>The dictionary that \<open>find_matches\<close> builds for one animal has six fixed keys.\<close>

record Match =
  animal_id :: cell
  animal_name :: cell
  adopter_id :: cell
  adopter_name :: cell
  score :: int
  reasoning :: string

text \<open>One iteration of the loop over all animals.\<close>

definition make_match ::
  "interpreter \<Rightarrow> CompatibilityScorer \<Rightarrow> pydict \<Rightarrow> pydict \<Rightarrow> error + Match" where
  "make_match v sc adopter animal =
     and_then (calculate_compatibility v sc animal adopter) (\<lambda>(sco, reas).
     and_then (subscript animal ''animal_id'') (\<lambda>a_id.
     and_then (subscript animal ''name'') (\<lambda>a_name.
     and_then (subscript adopter ''adopter_id'') (\<lambda>d_id.
     and_then (subscript adopter ''name'') (\<lambda>d_name.
       Inr \<lparr>animal_id = a_id, animal_name = a_name, adopter_id = d_id,
            adopter_name = d_name, score = sco, reasoning = reas\<rparr>)))))"

fun score_all ::
  "interpreter \<Rightarrow> CompatibilityScorer \<Rightarrow> pydict \<Rightarrow> pydict list \<Rightarrow> Match list \<Rightarrow> error + Match list" where
  "score_all v sc adopter [] matches = Inr matches"
| "score_all v sc adopter (animal # rest) matches =
     and_then (make_match v sc adopter animal) (\<lambda>m. score_all v sc adopter rest (matches @ [m]))"

text \<open>
  \<open>list.sort(key=..., reverse=True)\<close>: the list is reversed, sorted by a stable
  ascending sort, and reversed again, so equal keys keep their original order.
\<close>

definition sort_reverse :: "('a \<Rightarrow> int) \<Rightarrow> 'a list \<Rightarrow> 'a list" where
  "sort_reverse key xs = rev (sort_key key (rev xs))"

text \<open>The slice \<open>xs[:n]\<close>; a negative \<open>n\<close> counts from the end.\<close>

definition slice_to :: "'a list \<Rightarrow> int \<Rightarrow> 'a list" where
  "slice_to xs n = (if 0 \<le> n then take (nat n) xs else take (nat (int (length xs) + n)) xs)"

text \<open>\<open>not adopter\<close> holds for \<open>None\<close> and for an empty dictionary.\<close>

definition find_matches :: "interpreter \<Rightarrow> MatchingAgent \<Rightarrow> string \<Rightarrow> int \<Rightarrow> error + Match list" where
  "find_matches v self adopter_id' top_n =
     and_then (get_adopter (data_loader self) adopter_id') (\<lambda>found.
       case found of
         None \<Rightarrow> Inr []
       | Some adopter \<Rightarrow>
           if adopter = [] then Inr []
           else and_then (score_all v (scorer self) adopter (get_all_animals (data_loader self)) [])
                  (\<lambda>matches. Inr (slice_to (sort_reverse score matches) top_n)))"

text \<open>A call that leaves \<open>top_n\<close> out takes the default \<open>top_n = 3\<close>.\<close>

definition find_matches_default :: "interpreter \<Rightarrow> MatchingAgent \<Rightarrow> string \<Rightarrow> error + Match list" where
  "find_matches_default v self adopter_id' = find_matches v self adopter_id' 3"

section \<open>The fields that the scorer reads\<close>

definition animal_fields :: "string list" where
  "animal_fields =
     [''energy_level'', ''special_needs'', ''breed'', ''good_with_kids'', ''good_with_dogs'']"

definition adopter_fields :: "string list" where
  "adopter_fields =
     [''lifestyle'', ''experience_level'', ''home_type'', ''has_kids'', ''has_other_pets'',
      ''commitment_level'']"






text \<open>Two records that agree on the listed fields.\<close>

definition fields_agree :: "string list \<Rightarrow> pydict \<Rightarrow> pydict \<Rightarrow> bool" where
  "fields_agree ks d d' = list_all (\<lambda>k. map_of d k = map_of d' k) ks"

section \<open>Auxiliary notions\<close>

text \<open>The half-integer \<open>k / 2\<close>.\<close>

definition half :: "int \<Rightarrow> rat" where
  "half k = of_int k / 2"

text \<open>
  The weighted sum of five sub-scores, in hundredths; the total score is its integer
  quotient by 100.
\<close>

definition weighted_sum :: "int \<Rightarrow> int \<Rightarrow> int \<Rightarrow> int \<Rightarrow> int \<Rightarrow> int" where
  "weighted_sum s1 s2 s3 s4 s5 = 30 * s1 + 20 * s2 + 20 * s3 + 20 * s4 + 10 * s5"

section \<open>Example records\<close>

definition golden_retriever :: pydict where
  "golden_retriever =
     [(''energy_level'', Str ''high''), (''breed'', Str ''Golden Retriever''),
      (''good_with_kids'', Str ''yes''), (''good_with_dogs'', Str ''yes''),
      (''special_needs'', Str ''no'')]"

definition active_beginner :: pydict where
  "active_beginner =
     [(''lifestyle'', Str ''active''), (''home_type'', Str ''house''), (''has_kids'', Str ''yes''),
      (''has_other_pets'', Str ''yes''), (''experience_level'', Str ''beginner''),
      (''commitment_level'', Str ''medium'')]"



text \<open>The same two records, with a name and with fields that the scorer does not read.\<close>

definition golden_retriever_named :: pydict where
  "golden_retriever_named =
     [(''animal_id'', Str ''1''), (''name'', Str ''Max'')] @ golden_retriever"

definition golden_retriever_full :: pydict where
  "golden_retriever_full =
     [(''animal_id'', Str ''7''), (''name'', Str ''Max''), (''species'', Str ''dog''),
      (''age_years'', NoneCell)] @ golden_retriever"

section \<open>Facts about the float arithmetic\<close>

declare bit_length.simps [simp del]

lemma bit_length_nonneg: "0 \<le> bit_length n"
proof (induction n rule: bit_length.induct)
  case (1 n)
  show ?case
  proof (cases "n \<le> 0")
    case True
    then show ?thesis by (subst bit_length.simps) simp
  next
    case False
    with 1 show ?thesis by (subst bit_length.simps) simp
  qed
qed

lemma bit_length_pos: "0 < n \<Longrightarrow> 0 < bit_length n"
  using bit_length_nonneg [of "n div 2"] by (subst bit_length.simps) simp

lemma bit_length_bounds:
  "0 < n \<Longrightarrow> 2 ^ nat (bit_length n - 1) \<le> n \<and> n < 2 ^ nat (bit_length n)"
proof (induction n rule: bit_length.induct)
  case (1 n)
  show ?case
  proof (cases "n = 1")
    case True
    have "bit_length 1 = 1"
      by (subst bit_length.simps, simp, subst bit_length.simps, simp)
    with True show ?thesis by simp
  next
    case False
    with 1(2) have h: "0 < n div 2" "\<not> n \<le> 0" by auto
    from 1(1)[OF h(2) h(1)]
    have lo: "2 ^ nat (bit_length (n div 2) - 1) \<le> n div 2"
      and hi: "n div 2 < 2 ^ nat (bit_length (n div 2))" by auto
    have bl: "bit_length n = 1 + bit_length (n div 2)"
      using h(2) by (subst bit_length.simps) simp
    have p: "0 < bit_length (n div 2)" using bit_length_pos[OF h(1)] .
    then have e1: "nat (bit_length n - 1) = Suc (nat (bit_length (n div 2) - 1))"
      using bl by (simp add: nat_diff_distrib Suc_nat_eq_nat_zadd1)
    have e2: "nat (bit_length n) = Suc (nat (bit_length (n div 2)))"
      using bl p by (simp add: nat_add_distrib)
    have "2 * 2 ^ nat (bit_length (n div 2) - 1) \<le> n" using lo by linarith
    moreover have "n < 2 * 2 ^ nat (bit_length (n div 2))" using hi by linarith
    ultimately show ?thesis by (simp add: e1 e2)
  qed
qed

lemma round_half_even_of_int: "round_half_even (of_int m) = m"
  by (simp add: round_half_even_def)

lemma float_round_0: "float_round 0 = 0"
  by (simp add: float_round_def)

text \<open>A half-integer below \<open>2\<^sup>5\<^sup>2\<close> in magnitude is a float: rounding leaves it as it is.\<close>

lemma float_round_half:
  assumes "2 \<le> \<bar>k\<bar>" "\<bar>k\<bar> < 2 ^ 53"
  shows "float_round (of_int k / 2) = of_int k / 2"
proof -
  define n where "n = \<bar>k\<bar> div 2"
  define e where "e = nat (bit_length n - 1)"
  have npos: "0 < n" using assms(1) by (simp add: n_def)
  have ab: "\<bar>(of_int k / 2 :: rat)\<bar> = of_int \<bar>k\<bar> / 2" by simp
  have fl: "\<lfloor>(of_int \<bar>k\<bar> / 2 :: rat)\<rfloor> = n"
    unfolding n_def by (metis floor_divide_of_int_eq of_int_numeral)
  have b: "2 ^ e \<le> n" "n < 2 ^ Suc e"
    using bit_length_bounds[OF npos] bit_length_pos[OF npos]
    by (auto simp: e_def nat_diff_distrib Suc_nat_eq_nat_zadd1)
  have "n < 2 ^ 52" using assms(2) by (simp add: n_def)
  with b(1) have lt: "(2::int) ^ e < 2 ^ 52" by linarith
  have e52: "e < 52"
  proof (rule ccontr)
    assume "\<not> e < 52"
    then have "52 \<le> e" by simp
    then have "(2::int) ^ 52 \<le> 2 ^ e" by (rule power_increasing) simp
    with lt show False by linarith
  qed
  have one: "(1::rat) \<le> of_int \<bar>k\<bar> / 2" using assms(1) by simp
  have ex: "float_exponent (of_int k / 2) = int e"
    using bit_length_pos[OF npos]
    by (simp only: float_exponent_def Let_def ab one if_True fl e_def)
  define u :: rat where "u = 1 / 2 ^ (52 - e)"
  have "max (int e - 52) (- 1074) = int e - 52" by simp
  then have u: "pow2 (max (float_exponent (of_int k / 2) - 52) (- 1074)) = u"
    using e52 by (simp add: ex pow2_def nat_diff_distrib u_def)
  have nz: "u \<noteq> 0" by (simp add: u_def)
  have "52 - e = Suc (51 - e)" using e52 by simp
  then have q: "(of_int k / 2 :: rat) / u = of_int (k * 2 ^ (51 - e))"
    by (simp add: u_def)
  have k0: "(of_int k / 2 :: rat) \<noteq> 0" using assms(1) by auto
  have "float_round (of_int k / 2) = of_int (round_half_even ((of_int k / 2) / u)) * u"
    by (simp only: float_round_def u Let_def k0 if_False)
  also have "\<dots> = (of_int k / 2) / u * u"
    by (simp only: q round_half_even_of_int)
  also have "\<dots> = of_int k / 2" using nz by simp
  finally show ?thesis .
qed

lemma float_add_half:
  assumes "x = of_int a / 2" "y = of_int b / 2" "2 \<le> \<bar>a + b\<bar>" "\<bar>a + b\<bar> < 2 ^ 53"
  shows "float_add x y = of_int (a + b) / 2"
proof -
  have "x + y = of_int (a + b) / 2" using assms(1,2) by (simp add: add_divide_distrib)
  then show ?thesis by (simp only: float_add_def float_round_half[OF assms(3,4)])
qed

lemma float_sub_half:
  assumes "x = of_int a / 2" "y = of_int b / 2" "2 \<le> \<bar>a - b\<bar>" "\<bar>a - b\<bar> < 2 ^ 53"
  shows "float_sub x y = of_int (a - b) / 2"
proof -
  have "x - y = of_int (a - b) / 2" using assms(1,2) by (simp add: diff_divide_distrib)
  then show ?thesis by (simp only: float_sub_def float_round_half[OF assms(3,4)])
qed

lemma float_add_cancel: "float_add (- x) x = 0"
  by (simp add: float_add_def float_round_0)

lemma float_add_0_0: "float_add 0 0 = 0"
  by (simp add: float_add_def float_round_0)

lemma float_of_int_0: "float_of_int 0 = 0"
  by (simp add: float_of_int_def float_round_0)

text \<open>
  Sums of half-integers: every addition is exact, so the left-to-right sum is the
  exact sum, and the compensation of the other summation stays zero.
\<close>

lemma foldl_float_add_halves:
  assumes "2 \<le> K" "\<forall>k \<in> set ks. 2 \<le> k" "K + sum_list ks < 2 ^ 53"
  shows "foldl float_add (half K) (map half ks) = half (K + sum_list ks)"
  using assms
proof (induction ks arbitrary: K)
  case Nil
  then show ?case by simp
next
  case (Cons k ks)
  have k2: "2 \<le> k" using Cons.prems(2) by simp
  have nn: "0 \<le> sum_list ks" using Cons.prems(2) by (intro sum_list_nonneg) auto
  have lt: "K + k < 2 ^ 53" using Cons.prems(3) nn by simp
  have st: "float_add (half K) (half k) = half (K + k)"
    unfolding half_def using Cons.prems(1) k2 lt by (intro float_add_half) auto
  have "foldl float_add (half (K + k)) (map half ks) = half (K + k + sum_list ks)"
    using Cons.prems k2 by (intro Cons.IH) (auto simp: add.assoc)
  then show ?case by (simp add: st add.assoc)
qed

lemma compensated_halves:
  assumes "2 \<le> K" "\<forall>k \<in> set ks. 2 \<le> k" "K + sum_list ks < 2 ^ 53"
  shows "compensated (half K) 0 (map half ks) = half (K + sum_list ks)"
  using assms
proof (induction ks arbitrary: K)
  case Nil
  then show ?case by simp
next
  case (Cons k ks)
  have k2: "2 \<le> k" using Cons.prems(2) by simp
  have nn: "0 \<le> sum_list ks" using Cons.prems(2) by (intro sum_list_nonneg) auto
  have lt: "K + k < 2 ^ 53" using Cons.prems(3) nn by simp
  have st: "float_add (half K) (half k) = half (K + k)"
    unfolding half_def using Cons.prems(1) k2 lt by (intro float_add_half) auto
  have s1: "float_sub (half K) (half (K + k)) = - half k"
  proof -
    have "float_sub (half K) (half (K + k)) = of_int (K - (K + k)) / 2"
      unfolding half_def using Cons.prems(1) k2 lt by (intro float_sub_half) auto
    then show ?thesis by (simp add: half_def)
  qed
  have s2: "float_sub (half k) (half (K + k)) = - half K"
  proof -
    have "float_sub (half k) (half (K + k)) = of_int (k - (K + k)) / 2"
      unfolding half_def using Cons.prems(1) k2 lt by (intro float_sub_half) auto
    then show ?thesis by (simp add: half_def)
  qed
  have c0: "(if \<bar>half k\<bar> \<le> \<bar>half K\<bar>
             then float_add 0 (float_add (float_sub (half K) (half (K + k))) (half k))
             else float_add 0 (float_add (float_sub (half k) (half (K + k))) (half K))) = 0"
    by (simp only: s1 s2 float_add_cancel float_add_0_0 if_cancel)
  have "compensated (half (K + k)) 0 (map half ks) = half (K + k + sum_list ks)"
    using Cons.prems k2 by (intro Cons.IH) (auto simp: add.assoc)
  then show ?case
    by (simp only: list.map compensated.simps Let_def st c0 sum_list.Cons add.assoc)
qed

lemma py_sum_halves:
  assumes "\<forall>k \<in> set (k0 # ks). 2 \<le> k" "sum_list (k0 # ks) < 2 ^ 53"
  shows "py_sum v (map half (k0 # ks)) = half (sum_list (k0 # ks))"
proof -
  have k0: "2 \<le> k0" "\<forall>k \<in> set ks. 2 \<le> k" using assms(1) by auto
  have nn: "0 \<le> sum_list ks" using k0(2) by (intro sum_list_nonneg) auto
  have lt: "k0 + sum_list ks < 2 ^ 53" using assms(2) by simp
  have first: "float_add (float_of_int 0) (half k0) = half k0"
    unfolding half_def float_of_int_0 using float_add_half [of 0 0 "of_int k0 / 2" k0] k0(1) lt nn
    by auto
  show ?thesis
  proof (cases v)
    case CPython_3_11
    then show ?thesis
      using foldl_float_add_halves [OF k0 lt] by (simp add: first)
  next
    case CPython_3_12
    then show ?thesis
      using compensated_halves [OF k0 lt] by (simp add: first)
  qed
qed

lemma int_of_float_half: "0 \<le> k \<Longrightarrow> int_of_float (half k) = k div 2"
proof -
  assume "0 \<le> k"
  have "\<lfloor>(of_int k / 2 :: rat)\<rfloor> = k div 2"
    by (metis floor_divide_of_int_eq of_int_numeral)
  with \<open>0 \<le> k\<close> show ?thesis by (simp add: int_of_float_def half_def)
qed

text \<open>The product of a sub-score and its weight is exact.\<close>

lemma weight_30: "s \<in> {100, 70, 40} \<Longrightarrow>
  float_mul (float_of_int s) (float_round (30 / 100)) = half (6 * s div 10)"
  unfolding half_def
  apply (elim insertE emptyE)
    apply hypsubst
    apply code_simp
   apply hypsubst
   apply code_simp
  apply hypsubst
  apply code_simp
  done

lemma weight_20_a: "s \<in> {100, 90, 85, 70} \<Longrightarrow>
  float_mul (float_of_int s) (float_round (20 / 100)) = half (4 * s div 10)"
  unfolding half_def
  apply (elim insertE emptyE)
     apply hypsubst
     apply code_simp
    apply hypsubst
    apply code_simp
   apply hypsubst
   apply code_simp
  apply hypsubst
  apply code_simp
  done

lemma weight_20_b: "s \<in> {60, 40, 30} \<Longrightarrow>
  float_mul (float_of_int s) (float_round (20 / 100)) = half (4 * s div 10)"
  unfolding half_def
  apply (elim insertE emptyE)
    apply hypsubst
    apply code_simp
   apply hypsubst
   apply code_simp
  apply hypsubst
  apply code_simp
  done

lemma weight_10: "s \<in> {100, 95, 60, 30} \<Longrightarrow>
  float_mul (float_of_int s) (float_round (10 / 100)) = half (2 * s div 10)"
  unfolding half_def
  apply (elim insertE emptyE)
     apply hypsubst
     apply code_simp
    apply hypsubst
    apply code_simp
   apply hypsubst
   apply code_simp
  apply hypsubst
  apply code_simp
  done

lemma weight_20: "s \<in> {100, 90, 85, 70, 60, 40, 30} \<Longrightarrow>
  float_mul (float_of_int s) (float_round (20 / 100)) = half (4 * s div 10)"
  using weight_20_a [of s] weight_20_b [of s] by blast

section \<open>Facts about the sub-scorers\<close>

lemma lower_yes: "lower ''yes'' = ''yes''"
  by (simp add: lower_def lower_char_def)

lemma lower_no: "lower ''no'' = ''no''"
  by (simp add: lower_def lower_char_def)

lemma and_then_Inr: "and_then m f = Inr y \<longleftrightarrow> (\<exists>x. m = Inr x \<and> f x = Inr y)"
  by (cases m) (simp_all add: and_then_def)

text \<open>A sub-scorer raises nothing but \<open>AttributeError\<close>, and returns one of a few scores.\<close>

lemma score_lifestyle_cases:
  "(case score_lifestyle a d of Inl e \<Rightarrow> e = AttributeError | Inr s \<Rightarrow> s \<in> {100, 70, 40})"
  by (cases "dict_get a ''energy_level'' (Str ''medium'')";
      cases "dict_get d ''lifestyle'' (Str ''moderate'')")
     (simp_all add: score_lifestyle_def and_then_def Let_def)

lemma score_experience_cases:
  "(case score_experience a d of Inl e \<Rightarrow> e = AttributeError | Inr s \<Rightarrow> s \<in> {100, 90, 40})"
  by (cases "dict_get a ''special_needs'' (Str '''')";
      cases "dict_get d ''experience_level'' (Str ''beginner'')")
     (simp_all add: score_experience_def and_then_def Let_def)

lemma score_home_cases:
  "(case score_home a d of Inl e \<Rightarrow> e = AttributeError | Inr s \<Rightarrow> s \<in> {100, 90, 85, 40})"
  by (cases "dict_get a ''breed'' (Str '''')";
      cases "dict_get d ''home_type'' (Str ''apartment'')")
     (simp_all add: score_home_def estimate_size_def and_then_def Let_def)

lemma score_behavior_cases:
  "(case score_behavior a d of Inl e \<Rightarrow> e = AttributeError | Inr s \<Rightarrow> s \<in> {100, 70, 60, 30})"
  by (cases "dict_get d ''has_kids'' (Str ''no'')";
      cases "dict_get d ''has_other_pets'' (Str ''no'')";
      cases "dict_get a ''good_with_kids'' (Str ''no'')";
      cases "dict_get a ''good_with_dogs'' (Str ''no'')")
     (simp_all add: score_behavior_def and_then_def Let_def)

lemma score_special_needs_cases:
  "(case score_special_needs a d of Inl e \<Rightarrow> e = AttributeError
    | Inr s \<Rightarrow> s \<in> {100, 95, 60, 30})"
  by (cases "dict_get a ''special_needs'' (Str ''no'')";
      cases "dict_get d ''commitment_level'' (Str ''medium'')")
     (simp_all add: score_special_needs_def and_then_def Let_def)

lemma score_lifestyle_range: "score_lifestyle a d = Inr s \<Longrightarrow> s \<in> {100, 70, 40}"
  using score_lifestyle_cases [of a d] by simp

lemma score_experience_range: "score_experience a d = Inr s \<Longrightarrow> s \<in> {100, 90, 40}"
  using score_experience_cases [of a d] by simp

lemma score_home_range: "score_home a d = Inr s \<Longrightarrow> s \<in> {100, 90, 85, 40}"
  using score_home_cases [of a d] by simp

lemma score_behavior_range: "score_behavior a d = Inr s \<Longrightarrow> s \<in> {100, 70, 60, 30}"
  using score_behavior_cases [of a d] by simp

lemma score_special_needs_range: "score_special_needs a d = Inr s \<Longrightarrow> s \<in> {100, 95, 60, 30}"
  using score_special_needs_cases [of a d] by simp

section \<open>Facts about the total score\<close>

lemma half_of_fifty: "(50 * k) div 100 = k div (2::int)"
proof -
  have "(50 * k) div (50 * 2) = k div 2" by (rule div_mult_mult1) simp
  then show ?thesis by simp
qed

text \<open>
  With the weights of the constructor, the float computation of the total is exact:
  it returns the integer part of the exact weighted sum, under either summation.
\<close>

lemma total_of_scores:
  assumes r1: "s1 \<in> {100, 70, 40}" and r2: "s2 \<in> {100, 90, 40}"
      and r3: "s3 \<in> {100, 90, 85, 40}" and r4: "s4 \<in> {100, 70, 60, 30}"
      and r5: "s5 \<in> {100, 95, 60, 30}"
  shows "int_of_float (py_sum v
           [float_mul (float_of_int s1) (float_round (30 / 100)),
            float_mul (float_of_int s2) (float_round (20 / 100)),
            float_mul (float_of_int s3) (float_round (20 / 100)),
            float_mul (float_of_int s4) (float_round (20 / 100)),
            float_mul (float_of_int s5) (float_round (10 / 100))])
         = (30 * s1 + 20 * s2 + 20 * s3 + 20 * s4 + 10 * s5) div 100"
proof -
  define k1 k2 k3 k4 k5 where k_def: "k1 = 6 * s1 div 10" "k2 = 4 * s2 div 10"
    "k3 = 4 * s3 div 10" "k4 = 4 * s4 div 10" "k5 = 2 * s5 div 10"
  have p1: "float_mul (float_of_int s1) (float_round (30 / 100)) = half k1"
    unfolding k_def using r1 by (rule weight_30)
  have r2': "s2 \<in> {100, 90, 85, 70, 60, 40, 30}" using r2 by blast
  have r3': "s3 \<in> {100, 90, 85, 70, 60, 40, 30}" using r3 by blast
  have r4': "s4 \<in> {100, 90, 85, 70, 60, 40, 30}" using r4 by blast
  have p2: "float_mul (float_of_int s2) (float_round (20 / 100)) = half k2"
    unfolding k_def using r2' by (rule weight_20)
  have p3: "float_mul (float_of_int s3) (float_round (20 / 100)) = half k3"
    unfolding k_def using r3' by (rule weight_20)
  have p4: "float_mul (float_of_int s4) (float_round (20 / 100)) = half k4"
    unfolding k_def using r4' by (rule weight_20)
  have p5: "float_mul (float_of_int s5) (float_round (10 / 100)) = half k5"
    unfolding k_def using r5 by (rule weight_10)
  have k1: "2 \<le> k1" "k1 \<le> 60" "30 * s1 = 50 * k1"
    using r1 by (elim insertE emptyE; simp add: k_def)+
  have k2: "2 \<le> k2" "k2 \<le> 40" "20 * s2 = 50 * k2"
    using r2 by (elim insertE emptyE; simp add: k_def)+
  have k3: "2 \<le> k3" "k3 \<le> 40" "20 * s3 = 50 * k3"
    using r3 by (elim insertE emptyE; simp add: k_def)+
  have k4: "2 \<le> k4" "k4 \<le> 40" "20 * s4 = 50 * k4"
    using r4 by (elim insertE emptyE; simp add: k_def)+
  have k5: "2 \<le> k5" "k5 \<le> 20" "10 * s5 = 50 * k5"
    using r5 by (elim insertE emptyE; simp add: k_def)+
  define K where "K = k1 + k2 + k3 + k4 + k5"
  have Kb: "0 \<le> K" "K \<le> 200"
    unfolding K_def using k1(1,2) k2(1,2) k3(1,2) k4(1,2) k5(1,2) by linarith+
  have sl: "sum_list [k1, k2, k3, k4, k5] = K" by (simp add: K_def)
  have all2: "\<forall>k \<in> set [k1, k2, k3, k4, k5]. 2 \<le> k"
    using k1(1) k2(1) k3(1) k4(1) k5(1) by simp
  have "K < 2 ^ 53" using Kb(2) by simp
  then have lt: "sum_list [k1, k2, k3, k4, k5] < 2 ^ 53" by (simp only: sl)
  have "py_sum v (map half [k1, k2, k3, k4, k5]) = half (sum_list [k1, k2, k3, k4, k5])"
    using all2 lt by (rule py_sum_halves)
  then have sum: "py_sum v [half k1, half k2, half k3, half k4, half k5] = half K"
    by (simp only: sl list.map)
  have "30 * s1 + 20 * s2 + 20 * s3 + 20 * s4 + 10 * s5
        = 50 * k1 + 50 * k2 + 50 * k3 + 50 * k4 + 50 * k5"
    by (simp only: k1(3) k2(3) k3(3) k4(3) k5(3))
  then have "30 * s1 + 20 * s2 + 20 * s3 + 20 * s4 + 10 * s5 = 50 * K"
    by (simp add: K_def)
  then have "(30 * s1 + 20 * s2 + 20 * s3 + 20 * s4 + 10 * s5) div 100 = K div 2"
    by (simp only: half_of_fifty)
  then show ?thesis
    by (simp only: p1 p2 p3 p4 p5 sum int_of_float_half [OF Kb(1)])
qed

lemma sub_scores_Inr:
  "sub_scores a d = Inr scores \<longleftrightarrow>
     (\<exists>s1 s2 s3 s4 s5.
        score_lifestyle a d = Inr s1 \<and> score_experience a d = Inr s2 \<and> score_home a d = Inr s3
        \<and> score_behavior a d = Inr s4 \<and> score_special_needs a d = Inr s5
        \<and> scores = [(''lifestyle_match'', s1), (''experience_match'', s2), (''home_fit'', s3),
                     (''behavioral_fit'', s4), (''special_needs'', s5)])"
  unfolding sub_scores_def and_then_Inr by auto

lemma generate_reasoning_ok:
  "\<exists>r. generate_reasoning a d
          [(''lifestyle_match'', s1), (''experience_match'', s2), (''home_fit'', s3),
           (''behavioral_fit'', s4), (''special_needs'', s5)] = Inr r"
  by (simp add: generate_reasoning_def score_line_def subscript_def and_then_def)

lemma weighted_terms_init:
  "weighted_terms (weights CompatibilityScorer_init)
     [(''lifestyle_match'', s1), (''experience_match'', s2), (''home_fit'', s3),
      (''behavioral_fit'', s4), (''special_needs'', s5)]
     [''lifestyle_match'', ''experience_match'', ''home_fit'', ''behavioral_fit'', ''special_needs'']
   = Inr [float_mul (float_of_int s1) (float_round (30 / 100)),
          float_mul (float_of_int s2) (float_round (20 / 100)),
          float_mul (float_of_int s3) (float_round (20 / 100)),
          float_mul (float_of_int s4) (float_round (20 / 100)),
          float_mul (float_of_int s5) (float_round (10 / 100))]"
  by (simp add: CompatibilityScorer_init_def subscript_def and_then_def)

lemma calculate_compatibility_scores:
  assumes "score_lifestyle a d = Inr s1" "score_experience a d = Inr s2"
      and "score_home a d = Inr s3" "score_behavior a d = Inr s4"
      and "score_special_needs a d = Inr s5"
  shows "\<exists>r. generate_reasoning a d
                [(''lifestyle_match'', s1), (''experience_match'', s2), (''home_fit'', s3),
                 (''behavioral_fit'', s4), (''special_needs'', s5)] = Inr r
              \<and> (\<forall>v. calculate_compatibility v CompatibilityScorer_init a d
                       = Inr (weighted_sum s1 s2 s3 s4 s5 div 100, r))"
proof -
  let ?scores = "[(''lifestyle_match'', s1), (''experience_match'', s2), (''home_fit'', s3),
                  (''behavioral_fit'', s4), (''special_needs'', s5)]"
  have sc: "sub_scores a d = Inr ?scores"
    using assms by (simp add: sub_scores_Inr)
  have keys: "map fst ?scores = [''lifestyle_match'', ''experience_match'', ''home_fit'',
                                 ''behavioral_fit'', ''special_needs'']"
    by simp
  have tot: "int_of_float (py_sum v
           [float_mul (float_of_int s1) (float_round (30 / 100)),
            float_mul (float_of_int s2) (float_round (20 / 100)),
            float_mul (float_of_int s3) (float_round (20 / 100)),
            float_mul (float_of_int s4) (float_round (20 / 100)),
            float_mul (float_of_int s5) (float_round (10 / 100))])
         = weighted_sum s1 s2 s3 s4 s5 div 100" for v
    unfolding weighted_sum_def
    by (rule total_of_scores)
       (rule score_lifestyle_range score_experience_range score_home_range
             score_behavior_range score_special_needs_range, rule assms)+
  obtain r where r: "generate_reasoning a d ?scores = Inr r"
    using generate_reasoning_ok by blast
  have "calculate_compatibility v CompatibilityScorer_init a d
        = Inr (weighted_sum s1 s2 s3 s4 s5 div 100, r)" for v
    by (simp only: calculate_compatibility_def sc and_then_def sum.case keys
                   weighted_terms_init Let_def tot r)
  with r show ?thesis by blast
qed









section \<open>Facts about the case of letters\<close>










section \<open>Facts about records that agree on the fields read\<close>

lemma fields_agree_get:
  assumes "fields_agree ks d d'" "k \<in> set ks"
  shows "dict_get d' k dflt = dict_get d k dflt"
  using assms by (simp add: fields_agree_def list_all_iff dict_get_def)

lemma sub_scores_agree:
  assumes a: "fields_agree (''name'' # animal_fields) a a'"
      and d: "fields_agree (''name'' # adopter_fields) d d'"
  shows "sub_scores a' d' = sub_scores a d"
proof -
  note fa = fields_agree_get [OF a] and fd = fields_agree_get [OF d]
  have 1: "score_lifestyle a' d' = score_lifestyle a d"
    by (simp add: score_lifestyle_def fa fd animal_fields_def adopter_fields_def)
  have 2: "score_experience a' d' = score_experience a d"
    by (simp add: score_experience_def fa fd animal_fields_def adopter_fields_def)
  have 3: "score_home a' d' = score_home a d"
    by (simp add: score_home_def fa fd animal_fields_def adopter_fields_def)
  have 4: "score_behavior a' d' = score_behavior a d"
    by (simp add: score_behavior_def fa fd animal_fields_def adopter_fields_def)
  have 5: "score_special_needs a' d' = score_special_needs a d"
    by (simp add: score_special_needs_def fa fd animal_fields_def adopter_fields_def)
  show ?thesis by (simp add: sub_scores_def 1 2 3 4 5)
qed

lemma generate_reasoning_agree:
  assumes a: "fields_agree (''name'' # animal_fields) a a'"
      and d: "fields_agree (''name'' # adopter_fields) d d'"
  shows "generate_reasoning a' d' scores = generate_reasoning a d scores"
  by (simp add: generate_reasoning_def fields_agree_get [OF a] fields_agree_get [OF d])

lemma calculate_compatibility_any_interpreter:
  "calculate_compatibility v' CompatibilityScorer_init a d
   = calculate_compatibility v CompatibilityScorer_init a d"
proof (cases "sub_scores a d")
  case (Inl e)
  then show ?thesis by (simp add: calculate_compatibility_def and_then_def)
next
  case (Inr scores)
  then obtain s1 s2 s3 s4 s5 where
    "score_lifestyle a d = Inr s1" "score_experience a d = Inr s2" "score_home a d = Inr s3"
    "score_behavior a d = Inr s4" "score_special_needs a d = Inr s5"
    unfolding sub_scores_Inr by blast
  from calculate_compatibility_scores [OF this] show ?thesis by auto
qed

section \<open>The sub-scorers\<close>

text \<open>
  C3, as stated: an adopter with kids and other pets and an animal that is good with
  neither gives a behavioral score of exactly 10. The code subtracts 40 and 30 from 100
  and only then applies the floor, so the score is 30.
\<close>

theorem score_behavior_floor_counterexample:
  "score_behavior [(''good_with_kids'', Str ''no''), (''good_with_dogs'', Str ''no'')]
                  [(''has_kids'', Str ''yes''), (''has_other_pets'', Str ''yes'')] \<noteq> Inr 10"
  by code_simp

text \<open>
  C3, amended: for every pair in which the adopter has \<open>has_kids = yes\<close> and
  \<open>has_other_pets = yes\<close> and the animal has \<open>good_with_kids = no\<close> and
  \<open>good_with_dogs = no\<close>, the behavioral sub-score is exactly 30.
\<close>

theorem score_behavior_both_penalties:
  assumes "map_of adopter ''has_kids'' = Some (Str ''yes'')"
      and "map_of adopter ''has_other_pets'' = Some (Str ''yes'')"
      and "map_of animal ''good_with_kids'' = Some (Str ''no'')"
      and "map_of animal ''good_with_dogs'' = Some (Str ''no'')"
  shows "score_behavior animal adopter = Inr 30"
  using assms by (simp add: score_behavior_def and_then_def dict_get_def lower_yes lower_no)

text \<open>Witness for C3: the four hypotheses hold for the smallest such pair.\<close>

theorem score_behavior_both_penalties_witness:
  "score_behavior [(''good_with_kids'', Str ''no''), (''good_with_dogs'', Str ''no'')]
                  [(''has_kids'', Str ''yes''), (''has_other_pets'', Str ''yes'')] = Inr 30"
  by (rule score_behavior_both_penalties) simp_all

text \<open>
  C4, as stated: a missing \<open>experience_level\<close> gives 100. The code reads the field with
  the default \<open>beginner\<close>, so an animal without special needs and an adopter without the
  field score 90.
\<close>

theorem score_experience_missing_counterexample:
  "score_experience [(''special_needs'', Str ''no'')] [] \<noteq> Inr 100"
  by code_simp

text \<open>
  C4, amended: for every pair the experience sub-score follows this decision table.
  When the \<open>special_needs\<close> cell of the animal and the \<open>experience_level\<close> cell of the
  adopter are strings or their keys are absent, an absent \<open>experience_level\<close> key
  counts as \<open>beginner\<close>, a beginner scores 40 with a special-needs animal and 90
  otherwise, and every other string (\<open>experienced\<close>, \<open>other\<close>, the empty string,
  anything unrecognized) scores 100. When either cell is \<open>None\<close>, as in a row shorter
  than the header, the call raises \<open>AttributeError\<close>.
\<close>

theorem score_experience_table:
  "score_experience animal adopter =
     (case dict_get animal ''special_needs'' (Str '''') of
        NoneCell \<Rightarrow> Inl AttributeError
      | Str needs \<Rightarrow>
          (case map_of adopter ''experience_level'' of
             Some NoneCell \<Rightarrow> Inl AttributeError
           | None \<Rightarrow> Inr (if lower needs = ''yes'' then 40 else 90)
           | Some (Str e) \<Rightarrow>
               Inr (if lower e = ''beginner'' then (if lower needs = ''yes'' then 40 else 90)
                    else 100)))"
  by (simp add: score_experience_def and_then_def dict_get_def Let_def lower_def lower_char_def
           split: option.split cell.split)

section \<open>The total score\<close>

text \<open>
  C2, as stated: the total for the golden retriever and the active beginner is 97.
  The weighted sum is 30 + 18 + 20 + 20 + 10 = 98.
\<close>

theorem golden_retriever_total_not_97:
  "map_sum id fst (calculate_compatibility CPython_3_11 CompatibilityScorer_init
                     golden_retriever active_beginner) \<noteq> Inr 97
   \<and> map_sum id fst (calculate_compatibility CPython_3_12 CompatibilityScorer_init
                     golden_retriever active_beginner) \<noteq> Inr 97"
  by code_simp

text \<open>
  C2, amended: for that pair the five sub-scores are lifestyle 100, experience 90,
  home 100, behavioral 100 and special needs 100, and the total score is 98, under
  either summation of the interpreter.
\<close>

theorem golden_retriever_total_98:
  "sub_scores golden_retriever active_beginner =
     Inr [(''lifestyle_match'', 100), (''experience_match'', 90), (''home_fit'', 100),
          (''behavioral_fit'', 100), (''special_needs'', 100)]
   \<and> map_sum id fst (calculate_compatibility CPython_3_11 CompatibilityScorer_init
                       golden_retriever active_beginner) = Inr 98
   \<and> map_sum id fst (calculate_compatibility CPython_3_12 CompatibilityScorer_init
                       golden_retriever active_beginner) = Inr 98"
  by code_simp

section \<open>The total score: range\<close>




section \<open>The total score: case of letters\<close>



section \<open>The result as a function of the records\<close>

text \<open>
  C5: \<open>calculate_compatibility\<close> reads the two records and the weights of the scorer,
  and nothing else; it writes nothing. Its result, the total score and the reasoning
  text, is therefore the same at every invocation on the same two records, and more:
  it is the same for any two pairs of records that agree on the name and on the
  categorical fields that are read, and with the weights of the constructor it does not
  depend on which summation the interpreter uses.
\<close>

theorem calculate_compatibility_deterministic:
  assumes "fields_agree (''name'' # animal_fields) animal animal'"
      and "fields_agree (''name'' # adopter_fields) adopter adopter'"
  shows "calculate_compatibility v sc animal' adopter' = calculate_compatibility v sc animal adopter
         \<and> calculate_compatibility v' CompatibilityScorer_init animal' adopter'
           = calculate_compatibility v CompatibilityScorer_init animal adopter"
proof -
  have "calculate_compatibility v sc animal' adopter' = calculate_compatibility v sc animal adopter"
    for v sc
    by (simp add: calculate_compatibility_def sub_scores_agree [OF assms]
                  generate_reasoning_agree [OF assms])
  then show ?thesis
    using calculate_compatibility_any_interpreter [of v' animal adopter v] by simp
qed

text \<open>
  Witness for C5: two animal records that differ in an id, a species and an age, which
  the scorer does not read.
\<close>

theorem calculate_compatibility_deterministic_witness:
  "fields_agree (''name'' # animal_fields) golden_retriever_named golden_retriever_full
   \<and> fields_agree (''name'' # adopter_fields) active_beginner active_beginner
   \<and> calculate_compatibility CPython_3_11 CompatibilityScorer_init
        golden_retriever_full active_beginner
      = calculate_compatibility CPython_3_11 CompatibilityScorer_init
          golden_retriever_named active_beginner
   \<and> calculate_compatibility CPython_3_12 CompatibilityScorer_init
        golden_retriever_full active_beginner
      = calculate_compatibility CPython_3_11 CompatibilityScorer_init
          golden_retriever_named active_beginner"
proof -
  have a: "fields_agree (''name'' # animal_fields) golden_retriever_named golden_retriever_full"
    by (simp add: fields_agree_def animal_fields_def golden_retriever_named_def
                  golden_retriever_full_def)
  have b: "fields_agree (''name'' # adopter_fields) active_beginner active_beginner"
    by (simp add: fields_agree_def list_all_iff)
  show ?thesis
    using a b
      calculate_compatibility_deterministic
        [OF a b, of CPython_3_11 CompatibilityScorer_init CPython_3_12]
    by blast
qed

end
